theory Spec2Isabelle
  imports Complex_Main
begin

section \<open>Strings: upper-casing and whitespace removal\<close>

text \<open>
  Plate strings are cleaned with \<^verbatim>\<open>s.toUpperCase().replace(/\s/g, '')\<close>
  (\<^verbatim>\<open>validateLicensePlateFormat\<close>, \<^verbatim>\<open>verifyLicensePlateForBooking\<close>,
  \<^verbatim>\<open>createLicensePlateVerification\<close>) or with the two calls in the other order
  (\<^verbatim>\<open>validatePlateNumber\<close>, \<^verbatim>\<open>addLicensePlate\<close>).

  The model covers ASCII text, one \<open>char\<close> per character: \<open>toUpperChar\<close> maps
  the letters a-z to A-Z and leaves every other character as it is, and the class
  \<^verbatim>\<open>\s\<close> is its ASCII part (tab, line feed, vertical tab, form feed, carriage
  return, space).
\<close>

definition isWhitespace :: "char \<Rightarrow> bool" where
  "isWhitespace c = (c \<in> set [CHR 0x09, CHR 0x0A, CHR 0x0B, CHR 0x0C, CHR 0x0D, CHR '' ''])"

definition toUpperChar :: "char \<Rightarrow> char" where
  "toUpperChar c =
     (case map_of (zip ''abcdefghijklmnopqrstuvwxyz'' ''ABCDEFGHIJKLMNOPQRSTUVWXYZ'') c of
        Some u \<Rightarrow> u
      | None \<Rightarrow> c)"

definition toUpperCase :: "string \<Rightarrow> string" where
  "toUpperCase s = map toUpperChar s"

definition stripWhitespace :: "string \<Rightarrow> string" where
  \<comment> \<open>\<^verbatim>\<open>s.replace(/\s/g, '')\<close>\<close>
  "stripWhitespace s = filter (\<lambda>c. \<not> isWhitespace c) s"

definition normalizePlate :: "string \<Rightarrow> string" where
  \<comment> \<open>\<^verbatim>\<open>licensePlate.toUpperCase().replace(/\s/g, '')\<close>\<close>
  "normalizePlate p = stripWhitespace (toUpperCase p)"

text \<open>
  The same normalisation over any alphabet, for an upper-casing given per character
  (a character may map to several, as in full Unicode case mapping) and any class of
  whitespace characters.
\<close>

definition normalize_with :: "('c \<Rightarrow> 'c list) \<Rightarrow> ('c \<Rightarrow> bool) \<Rightarrow> 'c list \<Rightarrow> 'c list" where
  "normalize_with upper ws s = filter (\<lambda>c. \<not> ws c) (concat (map upper s))"

section \<open>Intervals and the overlap test\<close>

text \<open>
  Time stamps are milliseconds, as \<^verbatim>\<open>Date.getTime()\<close> returns them. The source
  stores them as ISO-8601 strings (\<^verbatim>\<open>toISOString()\<close>), whose order as strings is
  the order of the instants they denote.
\<close>

record interval =
  i_start :: int
  i_end :: int

text \<open>
  Modelled from the spec: the overlap test of \<^verbatim>\<open>getOverlappingBookings\<close>
  (\<^verbatim>\<open>lib/bookings\<close>, imported by the listing screen; its code is not part of the
  sources at hand). Section 4.1: two intervals intersect if
  \<^verbatim>\<open>existing.start < candidate.end AND existing.end > candidate.start\<close>.
\<close>

definition overlaps :: "interval \<Rightarrow> interval \<Rightarrow> bool" where
  "overlaps existing candidate =
     (i_start existing < i_end candidate \<and> i_end existing > i_start candidate)"

section \<open>The document store\<close>

text \<open>
  The application keeps its data in collections of a remote document store. A collection
  is modelled as an association list from document ids to documents, in the order in
  which a query returns them. A remote call fails when the store cannot be reached
  (\<open>available\<close> is \<open>False\<close>); the failure is the value \<open>Inl Unavailable\<close>.
  The time stamps \<^verbatim>\<open>created_at\<close> and \<^verbatim>\<open>updated_at\<close>, which no decision reads, are
  left out of the documents.
\<close>

datatype error =
    NotAuthenticated
  | BookingNotFound
  | PaymentNotFound
  | Unavailable
  | NoDocumentToUpdate
  | ReferenceError string

datatype booking_status = Pending | Confirmed | Cancelled | Completed

record booking =
  b_listing_id :: string
  b_listing_title :: string
  b_user_id :: string
  b_host_id :: string
  b_start_time :: int
  b_end_time :: int
  b_total_price :: rat
  b_status :: booking_status
  b_license_plate :: "string option"
  b_license_plate_state :: "string option"
  b_payment_id :: "string option"

datatype payment_status = PaymentPending | Processing | PaymentCompleted | PaymentFailed | Refunded

record payment =
  p_booking_id :: string
  p_user_id :: string
  p_host_id :: string
  p_amount :: rat
  p_currency :: string
  p_status :: payment_status
  p_payment_intent_id :: "string option"
  p_payment_method_id :: "string option"

datatype verification_status = VerificationPending | Verified | VerificationFailed | Disputed

datatype verifier = Host | Driver | System | Admin

datatype verification_method = Manual | Automatic | Photo | QrCode

record license_plate_verification =
  v_booking_id :: string
  v_license_plate :: string
  v_license_plate_state :: string
  v_verification_status :: verification_status
  v_verified_by :: verifier
  v_verified_at :: "string option"
  v_verification_method :: verification_method
  v_verification_notes :: "string option"

record store =
  available :: bool
  bookings :: "(string \<times> booking) list"
  payments :: "(string \<times> payment) list"
  license_plate_verifications :: "(string \<times> license_plate_verification) list"

definition doc_exists :: "string \<Rightarrow> (string \<times> 'a) list \<Rightarrow> bool" where
  "doc_exists k c = (map_of c k \<noteq> None)"

definition update_doc :: "string \<Rightarrow> ('a \<Rightarrow> 'a) \<Rightarrow> (string \<times> 'a) list \<Rightarrow> (string \<times> 'a) list" where
  "update_doc k f c = map (\<lambda>(k', v). if k' = k then (k', f v) else (k', v)) c"

definition getDoc_bookings :: "store \<Rightarrow> string \<Rightarrow> error + booking option" where
  \<comment> \<open>\<^verbatim>\<open>getDoc(doc(db, 'bookings', id))\<close>; \<open>None\<close> is a snapshot that does not exist\<close>
  "getDoc_bookings db k = (if available db then Inr (map_of (bookings db) k) else Inl Unavailable)"

definition updateDoc_bookings :: "store \<Rightarrow> string \<Rightarrow> (booking \<Rightarrow> booking) \<Rightarrow> error + store" where
  \<comment> \<open>\<^verbatim>\<open>updateDoc\<close> rejects when the document does not exist\<close>
  "updateDoc_bookings db k f =
     (if \<not> available db then Inl Unavailable
      else if \<not> doc_exists k (bookings db) then Inl NoDocumentToUpdate
      else Inr (db\<lparr>bookings := update_doc k f (bookings db)\<rparr>))"

definition updateDoc_payments :: "store \<Rightarrow> string \<Rightarrow> (payment \<Rightarrow> payment) \<Rightarrow> error + store" where
  "updateDoc_payments db k f =
     (if \<not> available db then Inl Unavailable
      else if \<not> doc_exists k (payments db) then Inl NoDocumentToUpdate
      else Inr (db\<lparr>payments := update_doc k f (payments db)\<rparr>))"

definition updateDoc_verifications ::
  "store \<Rightarrow> string \<Rightarrow> (license_plate_verification \<Rightarrow> license_plate_verification) \<Rightarrow> error + store" where
  "updateDoc_verifications db k f =
     (if \<not> available db then Inl Unavailable
      else if \<not> doc_exists k (license_plate_verifications db) then Inl NoDocumentToUpdate
      else Inr (db\<lparr>license_plate_verifications := update_doc k f (license_plate_verifications db)\<rparr>))"

definition addDoc_payments :: "store \<Rightarrow> string \<Rightarrow> payment \<Rightarrow> error + store" where
  \<comment> \<open>\<^verbatim>\<open>addDoc(collection(db, 'payments'), data)\<close>; the store generates the id \<open>new_id\<close>\<close>
  "addDoc_payments db new_id d =
     (if available db then Inr (db\<lparr>payments := payments db @ [(new_id, d)]\<rparr>) else Inl Unavailable)"

section \<open>Booking creation (the listing screen)\<close>

subsection \<open>Dates and time slots\<close>

text \<open>
  A \<^verbatim>\<open>Date\<close> is its time value in milliseconds, or \<open>None\<close> for an invalid date
  (time value NaN). Times are local times with a fixed offset to UTC, so that
  \<^verbatim>\<open>setHours\<close> keeps the day of the date and replaces the time within the day.
  A number that may be NaN is an \<open>int option\<close>, \<open>None\<close> for NaN.

  \<open>Number_js\<close> gives a value to strings of decimal digits (and to the empty string,
  which is 0), the components of a time slot \<^verbatim>\<open>HH:MM\<close>; every other string is NaN
  in the model.
\<close>

type_synonym js_date = "int option"

definition TimeClip :: "int \<Rightarrow> js_date" where
  "TimeClip t = (if \<bar>t\<bar> \<le> 8640000000000000 then Some t else None)"

definition setHours :: "js_date \<Rightarrow> int option \<Rightarrow> int option \<Rightarrow> js_date" where
  \<comment> \<open>\<^verbatim>\<open>d.setHours(h, m, 0, 0)\<close>\<close>
  "setHours d h m =
     (case d of None \<Rightarrow> None
      | Some t \<Rightarrow> (case h of None \<Rightarrow> None
        | Some hh \<Rightarrow> (case m of None \<Rightarrow> None
          | Some mm \<Rightarrow> TimeClip (t - t mod 86400000 + hh * 3600000 + mm * 60000))))"

fun split_colon :: "string \<Rightarrow> string list" where
  "split_colon [] = [[]]"
| "split_colon (c # cs) =
     (if c = CHR '':'' then [] # split_colon cs
      else (case split_colon cs of [] \<Rightarrow> [[c]] | p # ps \<Rightarrow> (c # p) # ps))"

definition digit_val :: "char \<Rightarrow> nat option" where
  "digit_val c = map_of (zip ''0123456789'' [0, 1, 2, 3, 4, 5, 6, 7, 8, 9]) c"

fun digits_val :: "nat \<Rightarrow> string \<Rightarrow> nat option" where
  "digits_val acc [] = Some acc"
| "digits_val acc (c # cs) =
     (case digit_val c of None \<Rightarrow> None | Some d \<Rightarrow> digits_val (10 * acc + d) cs)"

definition Number_js :: "string \<Rightarrow> int option" where
  "Number_js s = map_option int (digits_val 0 s)"

definition parse_hours :: "string \<Rightarrow> int option" where
  \<comment> \<open>the first component of \<^verbatim>\<open>str.split(':').map(Number)\<close>\<close>
  "parse_hours s = (case map Number_js (split_colon s) of [] \<Rightarrow> None | h # _ \<Rightarrow> h)"

definition parse_minutes :: "string \<Rightarrow> int option" where
  \<comment> \<open>the second component, \<^verbatim>\<open>'0'\<close> when there is none, through \<^verbatim>\<open>parseInt\<close>\<close>
  "parse_minutes s = (case map Number_js (split_colon s) of _ # m # _ \<Rightarrow> m | _ \<Rightarrow> Some 0)"

subsection \<open>The screen and its booking flow\<close>

record time_slot =
  startTime :: string
  endTime :: string

record license_plate =
  lp_id :: string
  plateNumber :: string
  lp_state :: string
  isDefault :: bool
  createdAt :: string

record listing =
  l_id :: string
  l_title :: string
  l_user_id :: string
  price_per_hour :: rat

record listing_screen =
  user :: "string option"
  listing :: "listing option"
  selectedDate :: "js_date option"
  selectedTimeSlot :: "time_slot option"
  selectedLicensePlate :: "license_plate option"

datatype ui_outcome =
    Alerted string
  | LicensePlateRequired
  | PaymentModalShown string rat

definition or_else :: "string \<Rightarrow> string \<Rightarrow> string" where
  \<comment> \<open>\<^verbatim>\<open>s || d\<close> on strings: the empty (or missing) string is falsy\<close>
  "or_else s d = (if s = [] then d else s)"

definition durationInHours :: "int \<Rightarrow> int \<Rightarrow> rat" where
  \<comment> \<open>\<^verbatim>\<open>(endDate.getTime() - startDate.getTime()) / (1000 * 60 * 60)\<close>\<close>
  "durationInHours s e = of_int (e - s) / (1000 * 60 * 60)"

definition listing_price :: "listing option \<Rightarrow> rat" where
  \<comment> \<open>\<^verbatim>\<open>listing?.price_per_hour || 0\<close>\<close>
  "listing_price l = (case l of None \<Rightarrow> 0 | Some x \<Rightarrow> price_per_hour x)"

definition handleBooking_payload :: "listing_screen \<Rightarrow> ui_outcome + booking" where
  \<comment> \<open>\<^verbatim>\<open>handleBooking\<close> up to the construction of \<^verbatim>\<open>bookingData\<close>\<close>
  "handleBooking_payload scr =
     (case user scr of
        None \<Rightarrow> Inl (Alerted ''Please sign in to make a booking'')
      | Some uid \<Rightarrow>
     (case selectedDate scr of
        None \<Rightarrow> Inl (Alerted ''Please select a date and time slot'')
      | Some d \<Rightarrow>
     (case selectedTimeSlot scr of
        None \<Rightarrow> Inl (Alerted ''Please select a date and time slot'')
      | Some slot \<Rightarrow>
     (case selectedLicensePlate scr of
        None \<Rightarrow> Inl LicensePlateRequired
      | Some plate \<Rightarrow>
     (case setHours d (parse_hours (startTime slot)) (parse_minutes (startTime slot)) of
        None \<Rightarrow> Inl (Alerted ''Invalid date or time chosen'')
      | Some startDate \<Rightarrow>
     (case setHours d (parse_hours (endTime slot)) (parse_minutes (endTime slot)) of
        None \<Rightarrow> Inl (Alerted ''Invalid date or time chosen'')
      | Some endDate \<Rightarrow>
        if startDate \<ge> endDate then Inl (Alerted ''Start time must be before end time'')
        else Inr
          \<lparr>b_listing_id = (case listing scr of None \<Rightarrow> [] | Some l \<Rightarrow> l_id l),
           b_listing_title =
             or_else (case listing scr of None \<Rightarrow> [] | Some l \<Rightarrow> l_title l) ''Parking Space'',
           b_user_id = uid,
           b_host_id = or_else (case listing scr of None \<Rightarrow> [] | Some l \<Rightarrow> l_user_id l) ''unknown'',
           b_start_time = startDate,
           b_end_time = endDate,
           b_total_price = durationInHours startDate endDate * listing_price (listing scr),
           b_status = Pending,
           b_license_plate = Some (plateNumber plate),
           b_license_plate_state = Some (lp_state plate),
           b_payment_id = None\<rparr>))))))"

text \<open>
  Modelled from the spec: \<^verbatim>\<open>createBooking\<close> of \<^verbatim>\<open>lib/bookings\<close>, whose code is not
  part of the sources at hand. Section 4.2: it accepts a fully formed booking payload and
  persists it with status \<^verbatim>\<open>pending\<close>, returning a generated identifier; nothing is
  validated again at write time. \<open>new_id\<close> is the identifier the store generates.
\<close>

definition createBooking :: "string \<Rightarrow> store \<Rightarrow> booking \<Rightarrow> error + (string \<times> store)" where
  "createBooking new_id db bookingData =
     (if available db
      then Inr (new_id, db\<lparr>bookings := bookings db @ [(new_id, bookingData\<lparr>b_status := Pending\<rparr>)]\<rparr>)
      else Inl Unavailable)"

text \<open>
  Modelled from the spec: \<^verbatim>\<open>getOverlappingBookings\<close> of \<^verbatim>\<open>lib/bookings\<close>, whose code
  is not part of the sources at hand. Section 4.1: given a listing id and a candidate
  interval, it returns the existing bookings of that listing whose interval intersects
  the candidate.
\<close>

definition getOverlappingBookings ::
  "store \<Rightarrow> string \<Rightarrow> int \<Rightarrow> int \<Rightarrow> error + (string \<times> booking) list" where
  "getOverlappingBookings db listingId startTime' endTime' =
     (if available db
      then Inr (filter (\<lambda>(k, b). b_listing_id b = listingId \<and>
                 overlaps \<lparr>i_start = b_start_time b, i_end = b_end_time b\<rparr>
                          \<lparr>i_start = startTime', i_end = endTime'\<rparr>) (bookings db))
      else Inl Unavailable)"

text \<open>
  \<^verbatim>\<open>handleBooking\<close> of the listing screen. The overlap query is the parameter
  \<open>query\<close>, called with the store, the listing id and the candidate interval: the flow
  is the same for every implementation of it, also for one that raises while the store
  accepts the write that follows. The result is what the user sees and the store after
  the flow.
\<close>

definition handleBooking ::
  "(store \<Rightarrow> string \<Rightarrow> int \<Rightarrow> int \<Rightarrow> error + (string \<times> booking) list) \<Rightarrow> string \<Rightarrow>
     listing_screen \<Rightarrow> store \<Rightarrow> ui_outcome \<times> store" where
  "handleBooking query new_id scr db =
     (case handleBooking_payload scr of
        Inl out \<Rightarrow> (out, db)
      | Inr bookingData \<Rightarrow>
          let proceed =
            (case createBooking new_id db bookingData of
               Inl e \<Rightarrow> (Alerted ''Failed to create booking. Please try again.'', db)
             | Inr (bookingId, db') \<Rightarrow> (PaymentModalShown bookingId (b_total_price bookingData), db'))
          in
          (case query db (b_listing_id bookingData) (b_start_time bookingData) (b_end_time bookingData) of
             Inr overlappingBookings \<Rightarrow>
               if length overlappingBookings > 0
               then (Alerted ''This time slot is already booked. Please choose another time.'', db)
               else proceed
           | Inl e \<Rightarrow> proceed))"

section \<open>Payments\<close>

datatype intent_status =
    RequiresPaymentMethod | RequiresConfirmation | RequiresAction | IntentProcessing
  | RequiresCapture | Canceled | Succeeded

record payment_intent =
  pi_id :: string
  pi_amount :: rat
  pi_currency :: string
  pi_status :: intent_status
  pi_client_secret :: string

text \<open>
  The handle is put together from the clock and the random number generator. Their
  values, as the template strings print them, are inputs of the model:
  \<^verbatim>\<open>Date.now()\<close> and \<^verbatim>\<open>Math.random().toString(36).substr(2, 9)\<close>, read once for the
  id and once for the client secret.
\<close>

record intent_entropy =
  now_for_id :: string
  random_for_id :: string
  now_for_secret :: string
  random_for_secret :: string

definition mockPaymentIntent :: "intent_entropy \<Rightarrow> rat \<Rightarrow> payment_intent" where
  "mockPaymentIntent ent amount =
     \<lparr>pi_id = ''pi_'' @ now_for_id ent @ ''_'' @ random_for_id ent,
      pi_amount = amount * 100,
      pi_currency = ''usd'',
      pi_status = RequiresPaymentMethod,
      pi_client_secret = ''pi_'' @ now_for_secret ent @ ''_secret_'' @ random_for_secret ent\<rparr>"

text \<open>
  \<^verbatim>\<open>createPaymentIntent\<close> of \<^verbatim>\<open>lib/payments\<close>. \<open>currentUser\<close> is the uid of
  \<^verbatim>\<open>auth.currentUser\<close>, \<open>None\<close> when nobody is signed in; \<open>new_id\<close> is the id the
  store gives the new payment document. The result is the returned handle or the error
  raised, and the store after the call.
\<close>

definition createPaymentIntent ::
  "string option \<Rightarrow> string \<Rightarrow> intent_entropy \<Rightarrow> store \<Rightarrow> string \<Rightarrow> rat \<Rightarrow>
     (error + payment_intent) \<times> store" where
  "createPaymentIntent currentUser new_id ent db bookingId amount =
     (case currentUser of
        None \<Rightarrow> (Inl NotAuthenticated, db)
      | Some uid \<Rightarrow>
        (case getDoc_bookings db bookingId of
           Inl e \<Rightarrow> (Inl e, db)
         | Inr None \<Rightarrow> (Inl BookingNotFound, db)
         | Inr (Some bookingData) \<Rightarrow>
           (case addDoc_payments db new_id
                   \<lparr>p_booking_id = bookingId,
                    p_user_id = uid,
                    p_host_id = b_host_id bookingData,
                    p_amount = amount,
                    p_currency = ''usd'',
                    p_status = PaymentPending,
                    p_payment_intent_id = None,
                    p_payment_method_id = None\<rparr> of
              Inl e \<Rightarrow> (Inl e, db)
            | Inr db1 \<Rightarrow>
              (case updateDoc_payments db1 new_id
                      (\<lambda>p. p\<lparr>p_payment_intent_id := Some (pi_id (mockPaymentIntent ent amount))\<rparr>) of
                 Inl e \<Rightarrow> (Inl e, db1)
               | Inr db2 \<Rightarrow> (Inr (mockPaymentIntent ent amount), db2)))))"

text \<open>
  \<^verbatim>\<open>confirmPayment\<close> of \<^verbatim>\<open>lib/payments\<close>. The query selects the payments with the
  given intent id and the uid of the caller; \<^verbatim>\<open>docs[0]\<close> is the first of them.
\<close>

definition confirmPayment ::
  "string option \<Rightarrow> store \<Rightarrow> string \<Rightarrow> string \<Rightarrow> (error + (string \<times> payment)) \<times> store" where
  "confirmPayment currentUser db paymentIntentId paymentMethodId =
     (case currentUser of
        None \<Rightarrow> (Inl NotAuthenticated, db)
      | Some uid \<Rightarrow>
        if \<not> available db then (Inl Unavailable, db)
        else
          (case filter (\<lambda>(k, p). p_payment_intent_id p = Some paymentIntentId \<and> p_user_id p = uid)
                  (payments db) of
             [] \<Rightarrow> (Inl PaymentNotFound, db)
           | (paymentDocId, paymentData) # _ \<Rightarrow>
               let updatedPaymentData =
                     paymentData\<lparr>p_status := PaymentCompleted,
                                 p_payment_method_id := Some paymentMethodId\<rparr>
               in
               (case updateDoc_payments db paymentDocId (\<lambda>_. updatedPaymentData) of
                  Inl e \<Rightarrow> (Inl e, db)
                | Inr db1 \<Rightarrow>
                  (case updateDoc_bookings db1 (p_booking_id paymentData)
                          (\<lambda>b. b\<lparr>b_status := Confirmed, b_payment_id := Some paymentDocId\<rparr>) of
                     Inl e \<Rightarrow> (Inl e, db1)
                   | Inr db2 \<Rightarrow> (Inr (paymentDocId, updatedPaymentData), db2)))))"

definition formatAmount_dollars :: "rat \<Rightarrow> rat" where
  \<comment> \<open>the number \<^verbatim>\<open>formatAmount\<close> hands to the currency formatter: \<^verbatim>\<open>amount / 100\<close>\<close>
  "formatAmount_dollars amount = amount / 100"

subsection \<open>The payment sheet\<close>

record stripe_error =
  se_code :: string
  se_message :: string

datatype payment_outcome =
    NoPaymentIntent
  | UserCanceled
  | PaymentFailure "string + error"
  | PaymentSuccess

text \<open>
  \<^verbatim>\<open>handlePayment\<close> of the payment sheet. The answers of the payment provider's
  hosted sheet are inputs: \<open>initError\<close> of \<^verbatim>\<open>initPaymentSheet\<close> and \<open>presentError\<close>
  of \<^verbatim>\<open>presentPaymentSheet\<close>, \<open>None\<close> when the call reports no error.
\<close>

definition handlePayment ::
  "string option \<Rightarrow> store \<Rightarrow> payment_intent option \<Rightarrow> stripe_error option \<Rightarrow>
     stripe_error option \<Rightarrow> payment_outcome \<times> store" where
  "handlePayment currentUser db paymentIntent initError presentError =
     (case paymentIntent of
        None \<Rightarrow> (NoPaymentIntent, db)
      | Some intent \<Rightarrow>
        (case initError of
           Some err \<Rightarrow> (PaymentFailure (Inl (se_message err)), db)
         | None \<Rightarrow>
           (case presentError of
              Some err \<Rightarrow>
                if se_code err = ''Canceled'' then (UserCanceled, db)
                else (PaymentFailure (Inl (se_message err)), db)
            | None \<Rightarrow>
              (case confirmPayment currentUser db (pi_id intent) ''stripe_payment_method'' of
                 (Inl e, db') \<Rightarrow> (PaymentFailure (Inr e), db')
               | (Inr p, db') \<Rightarrow> (PaymentSuccess, db')))))"

section \<open>License plate verification\<close>

record verification_result =
  success :: bool
  message :: string
  confidence :: "rat option"
  details :: "((string option \<times> string option) \<times> (string \<times> string)) option"

text \<open>
  The names the module \<^verbatim>\<open>lib/licensePlateVerification\<close> imports from the store's
  client library (its second line). A function of the module that calls a name which is
  neither imported nor declared in the module raises a \<^verbatim>\<open>ReferenceError\<close> at the
  call. The functions below take the imported names as the parameter \<open>scope\<close>, so that
  they can be read both as the module is written and with the import list completed.
\<close>

definition licensePlateVerification_imports :: "string list" where
  "licensePlateVerification_imports =
     [''doc'', ''getDoc'', ''updateDoc'', ''collection'', ''addDoc'', ''serverTimestamp'']"

definition last_verification_for ::
  "string \<Rightarrow> (string \<times> license_plate_verification) list \<Rightarrow> string option" where
  \<comment> \<open>the \<^verbatim>\<open>forEach\<close> loop: every matching document overwrites \<^verbatim>\<open>verificationId\<close>\<close>
  "last_verification_for bookingId docs =
     foldl (\<lambda>verificationId (k, d). if v_booking_id d = bookingId then Some k else verificationId)
       None docs"

definition updateData ::
  "string \<Rightarrow> verification_status \<Rightarrow> verifier \<Rightarrow> verification_method \<Rightarrow> string option \<Rightarrow>
     license_plate_verification \<Rightarrow> license_plate_verification" where
  "updateData now status verifiedBy method notes d =
     (let d1 = d\<lparr>v_verification_status := status,
                 v_verified_by := verifiedBy,
                 v_verification_method := method\<rparr>;
          d2 = (if status = Verified \<or> status = VerificationFailed
                then d1\<lparr>v_verified_at := Some now\<rparr> else d1)
      in (case notes of
            None \<Rightarrow> d2
          | Some n \<Rightarrow> if n = [] then d2 else d2\<lparr>v_verification_notes := Some n\<rparr>))"

definition updateLicensePlateVerification ::
  "string list \<Rightarrow> string \<Rightarrow> store \<Rightarrow> string \<Rightarrow> verification_status \<Rightarrow> verifier \<Rightarrow>
     verification_method \<Rightarrow> string option \<Rightarrow> (error + unit) \<times> store" where
  "updateLicensePlateVerification scope now db bookingId status verifiedBy method notes =
     (if ''getDocs'' \<notin> set scope then (Inl (ReferenceError ''getDocs''), db)
      else if \<not> available db then (Inl Unavailable, db)
      else
        (case last_verification_for bookingId (license_plate_verifications db) of
           None \<Rightarrow> (Inr (), db)
         | Some verificationId \<Rightarrow>
             if verificationId = [] then (Inr (), db)
             else
               (case updateDoc_verifications db verificationId
                       (updateData now status verifiedBy method notes) of
                  Inl e \<Rightarrow> (Inl e, db)
                | Inr db' \<Rightarrow> (Inr (), db'))))"

definition verification_error :: verification_result where
  "verification_error =
     \<lparr>success = False, message = ''Error during verification process'',
      confidence = None, details = None\<rparr>"

definition verifyLicensePlateForBooking ::
  "string list \<Rightarrow> string \<Rightarrow> store \<Rightarrow> string \<Rightarrow> string \<Rightarrow> string \<Rightarrow>
     verification_result \<times> store" where
  "verifyLicensePlateForBooking scope now db bookingId providedLicensePlate providedState =
     (case getDoc_bookings db bookingId of
        Inl e \<Rightarrow> (verification_error, db)
      | Inr None \<Rightarrow>
          (\<lparr>success = False, message = ''Booking not found'', confidence = None, details = None\<rparr>, db)
      | Inr (Some bookingData) \<Rightarrow>
          let expectedPlate = map_option normalizePlate (b_license_plate bookingData);
              expectedState = map_option toUpperCase (b_license_plate_state bookingData);
              providedPlate = normalizePlate providedLicensePlate;
              providedStateUpper = toUpperCase providedState;
              det = Some ((expectedPlate, expectedState), (providedPlate, providedStateUpper))
          in
          if expectedPlate = Some providedPlate \<and> expectedState = Some providedStateUpper then
            (case updateLicensePlateVerification scope now db bookingId Verified System Automatic None of
               (Inl e, db') \<Rightarrow> (verification_error, db')
             | (Inr u, db') \<Rightarrow>
                 (\<lparr>success = True, message = ''License plate matches booking'',
                   confidence = Some 1, details = det\<rparr>, db'))
          else if expectedPlate = Some providedPlate \<and> expectedState \<noteq> Some providedStateUpper then
            (\<lparr>success = False, message = ''License plate matches but state is different'',
              confidence = Some (1 / 2), details = det\<rparr>, db)
          else
            (case updateLicensePlateVerification scope now db bookingId VerificationFailed System
                    Automatic None of
               (Inl e, db') \<Rightarrow> (verification_error, db')
             | (Inr u, db') \<Rightarrow>
                 (\<lparr>success = False, message = ''License plate does not match booking'',
                   confidence = Some 0, details = det\<rparr>, db')))"

definition manualLicensePlateVerification ::
  "string list \<Rightarrow> string \<Rightarrow> store \<Rightarrow> string \<Rightarrow> bool \<Rightarrow> string \<Rightarrow> string option \<Rightarrow>
     (error + unit) \<times> store" where
  "manualLicensePlateVerification scope now db bookingId isVerified hostId notes =
     updateLicensePlateVerification scope now db bookingId
       (if isVerified then Verified else VerificationFailed) Host Manual notes"

section \<open>The license plates of a user\<close>

text \<open>
  The license plate manager holds the plates of the signed-in user in its component
  state \<^verbatim>\<open>licensePlates\<close> (\<open>local_plates\<close>), loaded from the user's document, and
  writes the whole list to the document (\<open>stored_plates\<close>) in each operation. \<open>uid\<close>
  is the uid of the user (\<open>None\<close>: the operation returns at once) and \<open>remote_ok\<close>
  says whether the write to the store succeeds; when it fails the operation shows an
  alert and does not replace its state. The result is the alert shown and the two lists
  after the operation.
\<close>

record plates_state =
  stored_plates :: "license_plate list"
  local_plates :: "license_plate list"

datatype plate_alert = PlateAlert string string

definition plate_char :: "char \<Rightarrow> bool" where
  \<comment> \<open>the character class \<^verbatim>\<open>[A-Z0-9\-\.]\<close>\<close>
  "plate_char c = (c \<in> set ''ABCDEFGHIJKLMNOPQRSTUVWXYZ0123456789-.'')"

definition validatePlateNumber :: "string \<Rightarrow> bool" where
  "validatePlateNumber plate =
     (let cleanPlate = toUpperCase (stripWhitespace plate) in
      if length cleanPlate < 2 \<or> length cleanPlate > 8 then False
      else list_all plate_char cleanPlate)"

definition addLicensePlate ::
  "string option \<Rightarrow> bool \<Rightarrow> string \<Rightarrow> string \<Rightarrow> string \<Rightarrow> string \<Rightarrow> plates_state \<Rightarrow>
     plate_alert option \<times> plates_state" where
  \<comment> \<open>\<open>now_ms\<close> is \<^verbatim>\<open>Date.now().toString()\<close>, \<open>now_iso\<close> is \<^verbatim>\<open>new Date().toISOString()\<close>\<close>
  "addLicensePlate uid remote_ok now_ms now_iso plateNumber' selectedState st =
     (case uid of
        None \<Rightarrow> (None, st)
      | Some u \<Rightarrow>
          let licensePlates = local_plates st;
              cleanPlate = toUpperCase (stripWhitespace plateNumber') in
          if \<not> validatePlateNumber cleanPlate then
            (Some (PlateAlert ''Invalid Plate Number''
               ''Please enter a valid license plate number (2-8 characters, letters and numbers only)''),
             st)
          else if list_ex (\<lambda>plate. plateNumber plate = cleanPlate \<and> lp_state plate = selectedState)
                    licensePlates then
            (Some (PlateAlert ''Duplicate Plate'' ''This license plate is already registered''), st)
          else
            let updatedPlates = licensePlates @
                  [\<lparr>lp_id = now_ms, plateNumber = cleanPlate, lp_state = selectedState,
                    isDefault = (length licensePlates = 0), createdAt = now_iso\<rparr>]
            in
            if \<not> remote_ok then (Some (PlateAlert ''Error'' ''Failed to add license plate''), st)
            else
              (Some (PlateAlert ''Success'' ''License plate added successfully''),
               \<lparr>stored_plates = updatedPlates, local_plates = updatedPlates\<rparr>))"

definition promote_first :: "license_plate list \<Rightarrow> license_plate list" where
  \<comment> \<open>\<^verbatim>\<open>updatedPlates[0].isDefault = true\<close>, as seen through \<^verbatim>\<open>updatedPlates\<close>\<close>
  "promote_first ps = (case ps of [] \<Rightarrow> [] | p # rest \<Rightarrow> p\<lparr>isDefault := True\<rparr> # rest)"

fun promote_first_remaining :: "string \<Rightarrow> license_plate list \<Rightarrow> license_plate list" where
  "promote_first_remaining plateId [] = []"
| "promote_first_remaining plateId (p # rest) =
     (if lp_id p \<noteq> plateId then p\<lparr>isDefault := True\<rparr> # rest
      else p # promote_first_remaining plateId rest)"

text \<open>
  \<^verbatim>\<open>removeLicensePlate\<close>. \<^verbatim>\<open>filter\<close> makes a new array of the same plate objects,
  so the assignment \<^verbatim>\<open>updatedPlates[0].isDefault = true\<close> changes the object that the
  state \<^verbatim>\<open>licensePlates\<close> holds too: \<open>promote_first_remaining\<close> is that assignment
  as seen through \<^verbatim>\<open>licensePlates\<close>. The assignment comes before the write to the
  store, so it stays when the write fails. \<open>confirmed\<close>: the user presses Remove, not
  Cancel, in the dialog.
\<close>

definition removeLicensePlate ::
  "string option \<Rightarrow> bool \<Rightarrow> bool \<Rightarrow> string \<Rightarrow> plates_state \<Rightarrow>
     plate_alert option \<times> plates_state" where
  "removeLicensePlate uid confirmed remote_ok plateId st =
     (case uid of
        None \<Rightarrow> (None, st)
      | Some u \<Rightarrow>
          if \<not> confirmed then (None, st)
          else
            let licensePlates = local_plates st;
                updatedPlates = filter (\<lambda>plate. lp_id plate \<noteq> plateId) licensePlates;
                removedPlate = find (\<lambda>plate. lp_id plate = plateId) licensePlates;
                promote = ((case removedPlate of None \<Rightarrow> False | Some r \<Rightarrow> isDefault r)
                             \<and> length updatedPlates > 0);
                updatedPlates' = (if promote then promote_first updatedPlates else updatedPlates);
                licensePlates' =
                  (if promote then promote_first_remaining plateId licensePlates else licensePlates)
            in
            if \<not> remote_ok then
              (Some (PlateAlert ''Error'' ''Failed to remove license plate''),
               st\<lparr>local_plates := licensePlates'\<rparr>)
            else
              (Some (PlateAlert ''Success'' ''License plate removed successfully''),
               \<lparr>stored_plates = updatedPlates', local_plates = updatedPlates'\<rparr>))"

definition setDefaultPlate ::
  "string option \<Rightarrow> bool \<Rightarrow> string \<Rightarrow> plates_state \<Rightarrow> plate_alert option \<times> plates_state" where
  "setDefaultPlate uid remote_ok plateId st =
     (case uid of
        None \<Rightarrow> (None, st)
      | Some u \<Rightarrow>
          let updatedPlates =
                map (\<lambda>plate. plate\<lparr>isDefault := (lp_id plate = plateId)\<rparr>) (local_plates st)
          in
          if \<not> remote_ok then (Some (PlateAlert ''Error'' ''Failed to update default plate''), st)
          else
            (Some (PlateAlert ''Success'' ''Default license plate updated''),
             \<lparr>stored_plates = updatedPlates, local_plates = updatedPlates\<rparr>))"

definition default_count :: "license_plate list \<Rightarrow> nat" where
  "default_count ps = length (filter isDefault ps)"

definition one_default :: "license_plate list \<Rightarrow> bool" where
  \<comment> \<open>the invariant of the data model: a non-empty list has exactly one default plate\<close>
  "one_default ps = (ps = [] \<or> default_count ps = 1)"

section \<open>Numbers\<close>

text \<open>
  The numbers of the source are binary64 floating point numbers. The model computes with
  exact rationals; it agrees with the source wherever the operands and the exact result
  of each operation are binary64 values, since a floating point operation returns the
  exact result when that is representable. \<open>is_binary64\<close> describes the normal and
  subnormal binary64 values by a mantissa below \<open>2 ^ 53\<close> and a power of two.
\<close>

definition is_binary64 :: "rat \<Rightarrow> bool" where
  "is_binary64 r =
     (\<exists>m k. \<bar>m\<bar> < (2::int) ^ 53 \<and>
        ((k \<le> (971::nat) \<and> r = of_int m * 2 ^ k) \<or> (k \<le> 1074 \<and> r = of_int m / 2 ^ k)))"

definition is_integer :: "rat \<Rightarrow> bool" where
  "is_integer r = (of_int \<lfloor>r\<rfloor> = r)"

section \<open>Example data\<close>

text \<open>
  A listing \<open>L1\<close> of host \<open>host1\<close>, and a store that holds one booking of it,
  \<open>b1\<close> from 09:00 to 10:00 with the plate ABC123 of California, and the verification
  record \<open>v1\<close> of that booking. The examples below run the operations on them.
\<close>

definition scr_example :: "rat \<Rightarrow> string \<Rightarrow> string \<Rightarrow> listing_screen" where
  \<comment> \<open>driver2 on the screen of L1, priced \<open>price\<close> per hour, with a slot selected\<close>
  "scr_example price from to =
     \<lparr>user = Some ''driver2'',
      listing = Some \<lparr>l_id = ''L1'', l_title = ''Garage'', l_user_id = ''host1'',
                      price_per_hour = price\<rparr>,
      selectedDate = Some (Some 1700010000000),
      selectedTimeSlot = Some \<lparr>startTime = from, endTime = to\<rparr>,
      selectedLicensePlate =
        Some \<lparr>lp_id = ''1'', plateNumber = ''XYZ789'', lp_state = ''NY'', isDefault = True,
              createdAt = ''2023-11-01T00:00:00.000Z''\<rparr>\<rparr>"

definition booking_example :: "int \<Rightarrow> int \<Rightarrow> rat \<Rightarrow> booking" where
  \<comment> \<open>the payload of driver2's request for L1\<close>
  "booking_example s e amount =
     \<lparr>b_listing_id = ''L1'', b_listing_title = ''Garage'', b_user_id = ''driver2'',
      b_host_id = ''host1'', b_start_time = s, b_end_time = e, b_total_price = amount,
      b_status = Pending, b_license_plate = Some ''XYZ789'', b_license_plate_state = Some ''NY'',
      b_payment_id = None\<rparr>"

definition db_example :: store where
  "db_example =
     \<lparr>available = True,
      bookings =
        [(''b1'',
          \<lparr>b_listing_id = ''L1'', b_listing_title = ''Garage'', b_user_id = ''driver1'',
           b_host_id = ''host1'', b_start_time = 1700038800000, b_end_time = 1700042400000,
           b_total_price = 10, b_status = Pending, b_license_plate = Some ''ABC123'',
           b_license_plate_state = Some ''CA'', b_payment_id = None\<rparr>)],
      payments = [],
      license_plate_verifications =
        [(''v1'',
          \<lparr>v_booking_id = ''b1'', v_license_plate = ''ABC123'', v_license_plate_state = ''CA'',
           v_verification_status = VerificationPending, v_verified_by = System,
           v_verified_at = None, v_verification_method = Automatic,
           v_verification_notes = None\<rparr>)]\<rparr>"

definition entropy_example :: intent_entropy where
  "entropy_example =
     \<lparr>now_for_id = ''1700000000000'', random_for_id = ''k3j9x0q2a'',
      now_for_secret = ''1700000000001'', random_for_secret = ''p8d1m4z7c''\<rparr>"

text \<open>
  The payment that \<open>driver1\<close> initiates for \<open>b1\<close>, the store that holds it and
  the handle returned for it.
\<close>

definition payment_example :: payment where
  "payment_example =
     \<lparr>p_booking_id = ''b1'', p_user_id = ''driver1'', p_host_id = ''host1'', p_amount = 10,
      p_currency = ''usd'', p_status = PaymentPending,
      p_payment_intent_id = Some ''pi_1700000000000_k3j9x0q2a'', p_payment_method_id = None\<rparr>"

definition db_with_payment :: store where
  "db_with_payment = db_example\<lparr>payments := [(''p1'', payment_example)]\<rparr>"

definition intent_example :: payment_intent where
  "intent_example = mockPaymentIntent entropy_example 10"

text \<open>
  The store after \<open>driver2\<close> has booked L1 from 12:00 to 13:30 at 15 per hour.
\<close>

definition db_after_booking :: store where
  "db_after_booking =
     db_example\<lparr>bookings := bookings db_example @
       [(''b2'', booking_example 1700049600000 1700055000000 (45 / 2))]\<rparr>"

text \<open>
  A user with two plates, the first of them the default, with the component state as
  loaded from the user's document.
\<close>

definition plate_A :: license_plate where
  "plate_A = \<lparr>lp_id = ''1700000000001'', plateNumber = ''ABC123'', lp_state = ''CA'',
               isDefault = True, createdAt = ''2023-11-14T22:13:20.001Z''\<rparr>"

definition plate_B :: license_plate where
  "plate_B = \<lparr>lp_id = ''1700000000002'', plateNumber = ''DEF456'', lp_state = ''CA'',
               isDefault = False, createdAt = ''2023-11-14T22:13:20.002Z''\<rparr>"

definition plates_example :: plates_state where
  "plates_example = \<lparr>stored_plates = [plate_A, plate_B], local_plates = [plate_A, plate_B]\<rparr>"

text \<open>
  The one-default invariant together with what the operations rely on: the ids, taken
  from the clock at the time a plate is added, are distinct.
\<close>

definition plates_ok :: "license_plate list \<Rightarrow> bool" where
  "plates_ok ps = (distinct (map lp_id ps) \<and> one_default ps)"

section \<open>Properties of plate normalisation\<close>


lemma isWhitespace_toUpperChar: "isWhitespace (toUpperChar c) = isWhitespace c"
  unfolding toUpperChar_def isWhitespace_def by (simp split: if_splits)

lemma toUpperCase_stripWhitespace:
  "toUpperCase (stripWhitespace s) = stripWhitespace (toUpperCase s)"
  unfolding toUpperCase_def stripWhitespace_def
  by (induction s) (simp_all add: isWhitespace_toUpperChar)




lemma normalizePlate_order_irrelevant:
  "toUpperCase (stripWhitespace p) = normalizePlate p"
  by (simp add: normalizePlate_def toUpperCase_stripWhitespace)

lemma normalizePlate_example: "normalizePlate ''abc 123'' = ''ABC123''"
  by (simp add: normalizePlate_def toUpperCase_def stripWhitespace_def toUpperChar_def
      isWhitespace_def)

text \<open>
  Idempotence does not depend on the ASCII alphabet of the model: it holds for every
  per-character upper-casing that is itself idempotent and maps whitespace to whitespace
  and other characters to other characters.
\<close>

lemma normalizePlate_as_normalize_with:
  "normalizePlate p = normalize_with (\<lambda>c. [toUpperChar c]) isWhitespace p"
  by (simp add: normalizePlate_def normalize_with_def toUpperCase_def stripWhitespace_def
      concat_map_singleton)

lemma normalize_with_idempotent:
  assumes idem: "\<And>c. concat (map upper (upper c)) = upper c"
    and ws: "\<And>c d. d \<in> set (upper c) \<Longrightarrow> ws d = ws c"
  shows "normalize_with upper ws (normalize_with upper ws s) = normalize_with upper ws s"
proof -
  have one: "filter (\<lambda>c. \<not> ws c) (upper x) = (if ws x then [] else upper x)" for x
    using ws [of _ x] by (auto simp: filter_empty_conv filter_id_conv)
  have comm: "concat (map upper (filter (\<lambda>c. \<not> ws c) xs)) =
              filter (\<lambda>c. \<not> ws c) (concat (map upper xs))" for xs
    by (induction xs) (simp_all add: one)
  have twice: "concat (map upper (concat (map upper xs))) = concat (map upper xs)" for xs
    by (induction xs) (simp_all add: idem)
  show ?thesis
    by (simp add: normalize_with_def comm twice)
qed

section \<open>Properties of the overlap test\<close>

text \<open>
  Claim C1. For every pair of intervals \<open>A\<close> and \<open>B\<close> the overlap test is symmetric,
  and intervals that merely touch (the end of \<open>A\<close> is the start of \<open>B\<close>) do not
  overlap.
\<close>

theorem overlaps_symmetric_touching:
  "overlaps A B = overlaps B A \<and> (i_end A = i_start B \<longrightarrow> \<not> overlaps A B)"
  by (auto simp: overlaps_def)

theorem overlaps_symmetric_touching_witness:
  "overlaps \<lparr>i_start = 32400000, i_end = 36000000\<rparr> \<lparr>i_start = 36000000, i_end = 39600000\<rparr>
     = overlaps \<lparr>i_start = 36000000, i_end = 39600000\<rparr> \<lparr>i_start = 32400000, i_end = 36000000\<rparr>
   \<and> i_end \<lparr>i_start = 32400000, i_end = 36000000\<rparr> = i_start \<lparr>i_start = 36000000, i_end = 39600000\<rparr>
   \<and> \<not> overlaps \<lparr>i_start = 32400000, i_end = 36000000\<rparr> \<lparr>i_start = 36000000, i_end = 39600000\<rparr>"
  using overlaps_symmetric_touching
    [of "\<lparr>i_start = 32400000, i_end = 36000000\<rparr>" "\<lparr>i_start = 36000000, i_end = 39600000\<rparr>"]
  by auto

section \<open>Properties of the booking flow\<close>

lemmas booking_flow_defs =
  handleBooking_def handleBooking_payload_def createBooking_def getOverlappingBookings_def
  overlaps_def parse_hours_def parse_minutes_def Number_js_def digit_val_def setHours_def
  TimeClip_def or_else_def durationInHours_def listing_price_def

lemma handleBooking_payload_props:
  assumes "handleBooking_payload scr = Inr b"
  shows "b_status b = Pending"
    and "b_total_price b =
           durationInHours (b_start_time b) (b_end_time b) * listing_price (listing scr)"
    and "b_start_time b < b_end_time b"
  using assms
  by (auto simp: handleBooking_payload_def split: option.splits if_splits)

text \<open>
  Claim C2. When the guards of the flow have passed and built the payload: if the overlap
  query succeeds and returns at least one booking, the request is rejected with the
  alert and the store is left as it was (no booking is written); if the overlap query
  itself raises, the flow goes on and creates the booking (with the store accepting the
  write, the booking is persisted and the payment modal is shown).
\<close>

theorem handleBooking_overlap_rejects_fail_open:
  "(handleBooking_payload scr = Inr bookingData \<and>
      query db (b_listing_id bookingData) (b_start_time bookingData) (b_end_time bookingData)
        = Inr found \<and>
      found \<noteq> []
    \<longrightarrow> handleBooking query new_id scr db =
          (Alerted ''This time slot is already booked. Please choose another time.'', db))
   \<and> (handleBooking_payload scr = Inr bookingData \<and>
      query db (b_listing_id bookingData) (b_start_time bookingData) (b_end_time bookingData)
        = Inl e \<and>
      available db
    \<longrightarrow> handleBooking query new_id scr db =
          (PaymentModalShown new_id (b_total_price bookingData),
           db\<lparr>bookings := bookings db @ [(new_id, bookingData)]\<rparr>))"
proof (intro conjI impI)
  assume "handleBooking_payload scr = Inr bookingData \<and>
      query db (b_listing_id bookingData) (b_start_time bookingData) (b_end_time bookingData)
        = Inr found \<and>
      found \<noteq> []"
  then show "handleBooking query new_id scr db =
          (Alerted ''This time slot is already booked. Please choose another time.'', db)"
    by (simp add: handleBooking_def)
next
  assume h: "handleBooking_payload scr = Inr bookingData \<and>
      query db (b_listing_id bookingData) (b_start_time bookingData) (b_end_time bookingData)
        = Inl e \<and>
      available db"
  then have "b_status bookingData = Pending"
    using handleBooking_payload_props(1) [of scr bookingData] by blast
  then have "bookingData\<lparr>b_status := Pending\<rparr> = bookingData" by simp
  with h show "handleBooking query new_id scr db =
          (PaymentModalShown new_id (b_total_price bookingData),
           db\<lparr>bookings := bookings db @ [(new_id, bookingData)]\<rparr>)"
    by (simp add: handleBooking_def createBooking_def)
qed

lemma payload_example:
  "handleBooking_payload (scr_example 10 ''09:30'' ''10:30'') =
     Inr (booking_example 1700040600000 1700044200000 10)"
  by (simp add: scr_example_def booking_example_def booking_flow_defs)

lemma query_example:
  "getOverlappingBookings db_example ''L1'' 1700040600000 1700044200000 =
     Inr (bookings db_example)"
  by (simp add: db_example_def booking_flow_defs)

text \<open>
  The scenario of the spec: booking \<open>b1\<close> occupies 09:00 to 10:00; the request for
  09:30 to 10:30 is rejected; with an overlap query that raises, the same request is
  written.
\<close>

theorem handleBooking_overlap_rejects_fail_open_witness:
  "handleBooking getOverlappingBookings ''b2'' (scr_example 10 ''09:30'' ''10:30'') db_example =
     (Alerted ''This time slot is already booked. Please choose another time.'', db_example)
   \<and> handleBooking (\<lambda>db l s e. Inl Unavailable) ''b2'' (scr_example 10 ''09:30'' ''10:30'')
       db_example =
     (PaymentModalShown ''b2'' 10,
      db_example\<lparr>bookings := bookings db_example @
        [(''b2'', booking_example 1700040600000 1700044200000 10)]\<rparr>)"
proof -
  have av: "available db_example" and ne: "bookings db_example \<noteq> []"
    by (simp_all add: db_example_def)
  have sel: "b_total_price (booking_example 1700040600000 1700044200000 10) = 10"
    "b_listing_id (booking_example 1700040600000 1700044200000 10) = ''L1''"
    "b_start_time (booking_example 1700040600000 1700044200000 10) = 1700040600000"
    "b_end_time (booking_example 1700040600000 1700044200000 10) = 1700044200000"
    by (simp_all add: booking_example_def)
  show ?thesis
    using handleBooking_overlap_rejects_fail_open
        [of "scr_example 10 ''09:30'' ''10:30''" "booking_example 1700040600000 1700044200000 10"
            getOverlappingBookings db_example "bookings db_example" "''b2''" Unavailable]
      handleBooking_overlap_rejects_fail_open
        [of "scr_example 10 ''09:30'' ''10:30''" "booking_example 1700040600000 1700044200000 10"
            "\<lambda>db l s e. Inl Unavailable" db_example "[]" "''b2''" Unavailable]
    by (simp add: payload_example query_example av ne sel)
qed

lemma touching_request_accepted:
  "handleBooking getOverlappingBookings ''b2'' (scr_example 10 ''10:00'' ''11:00'') db_example =
     (PaymentModalShown ''b2'' 10,
      db_example\<lparr>bookings := bookings db_example @
        [(''b2'', booking_example 1700042400000 1700046000000 10)]\<rparr>)"
  by (simp add: scr_example_def db_example_def booking_example_def booking_flow_defs)

lemma handleBooking_guard_failure_writes_nothing:
  "handleBooking_payload scr = Inl out \<Longrightarrow> handleBooking query new_id scr db = (out, db)"
  by (simp add: handleBooking_def)

lemma handleBooking_query_failure_proceeds:
  assumes "handleBooking_payload scr = Inr bookingData"
    and "query db (b_listing_id bookingData) (b_start_time bookingData) (b_end_time bookingData)
           = Inl e"
  shows "handleBooking query new_id scr db =
           (case createBooking new_id db bookingData of
              Inl e' \<Rightarrow> (Alerted ''Failed to create booking. Please try again.'', db)
            | Inr (bookingId, db') \<Rightarrow>
                (PaymentModalShown bookingId (b_total_price bookingData), db'))"
  using assms by (simp add: handleBooking_def)

lemma binary64_int: "\<bar>m\<bar> < (2::int) ^ 53 \<Longrightarrow> is_binary64 (of_int m)"
  unfolding is_binary64_def by (rule exI [of _ m], rule exI [of _ 0]) simp

lemma scenario_values_binary64:
  "is_binary64 9000000" "is_binary64 3600000" "is_binary64 (9000000 / 3600000)" "is_binary64 10"
  "is_binary64 (9000000 / 3600000 * 10)"
proof -
  show "is_binary64 9000000" using binary64_int [of 9000000] by simp
  show "is_binary64 3600000" using binary64_int [of 3600000] by simp
  show "is_binary64 10" using binary64_int [of 10] by simp
  show "is_binary64 (9000000 / 3600000 * 10)" using binary64_int [of 25] by simp
  show "is_binary64 (9000000 / 3600000)"
    unfolding is_binary64_def by (rule exI [of _ 5], rule exI [of _ 1]) simp
qed





section \<open>Properties of the payment operations\<close>

lemma doc_exists_iff: "doc_exists k c \<longleftrightarrow> k \<in> fst ` set c"
  by (simp add: doc_exists_def map_of_eq_None_iff)

lemma map_of_update_doc:
  "map_of (update_doc k f c) k' = (if k' = k then map_option f (map_of c k) else map_of c k')"
  by (induction c) (auto simp: update_doc_def)

lemma update_doc_append:
  "update_doc k f (c @ d) = update_doc k f c @ update_doc k f d"
  by (simp add: update_doc_def)

lemma doc_exists_update_doc: "doc_exists k' (update_doc k f c) = doc_exists k' c"
  by (auto simp: doc_exists_def map_of_update_doc)

text \<open>
  Claim C8. Payment initiation raises an error when nobody is signed in, and when the
  booking does not exist (the not-found error when the store answers). Otherwise, with
  the store available, it succeeds: it records a payment for the booking and the amount
  with status \<open>PaymentPending\<close>, as the last document of the collection, and returns
  the handle put together locally, whose id is \<^verbatim>\<open>pi_<now>_<random>\<close> and whose client
  secret is \<^verbatim>\<open>pi_<now>_secret_<random>\<close>; the recorded payment carries the id of the
  handle.
\<close>

theorem createPaymentIntent_contract:
  "createPaymentIntent None new_id ent db bookingId amount = (Inl NotAuthenticated, db)
   \<and> (map_of (bookings db) bookingId = None \<longrightarrow>
        createPaymentIntent (Some uid) new_id ent db bookingId amount =
          (Inl (if available db then BookingNotFound else Unavailable), db))
   \<and> (available db \<and> map_of (bookings db) bookingId = Some b \<longrightarrow>
        (\<exists>db'. createPaymentIntent (Some uid) new_id ent db bookingId amount =
                 (Inr (mockPaymentIntent ent amount), db')
             \<and> last (payments db') =
                 (new_id,
                  \<lparr>p_booking_id = bookingId, p_user_id = uid, p_host_id = b_host_id b,
                   p_amount = amount, p_currency = ''usd'', p_status = PaymentPending,
                   p_payment_intent_id = Some (pi_id (mockPaymentIntent ent amount)),
                   p_payment_method_id = None\<rparr>)
             \<and> length (payments db') = Suc (length (payments db))
             \<and> bookings db' = bookings db)
        \<and> pi_id (mockPaymentIntent ent amount) = ''pi_'' @ now_for_id ent @ ''_'' @ random_for_id ent
        \<and> pi_client_secret (mockPaymentIntent ent amount) =
            ''pi_'' @ now_for_secret ent @ ''_secret_'' @ random_for_secret ent)"
proof (intro conjI impI)
  show "createPaymentIntent None new_id ent db bookingId amount = (Inl NotAuthenticated, db)"
    by (simp add: createPaymentIntent_def)
next
  assume "map_of (bookings db) bookingId = None"
  then show "createPaymentIntent (Some uid) new_id ent db bookingId amount =
          (Inl (if available db then BookingNotFound else Unavailable), db)"
    by (simp add: createPaymentIntent_def getDoc_bookings_def)
next
  assume h: "available db \<and> map_of (bookings db) bookingId = Some b"
  let ?d = "\<lparr>p_booking_id = bookingId, p_user_id = uid, p_host_id = b_host_id b,
                   p_amount = amount, p_currency = ''usd'', p_status = PaymentPending,
                   p_payment_intent_id = None, p_payment_method_id = None\<rparr>"
  let ?f = "\<lambda>p. p\<lparr>p_payment_intent_id := Some (pi_id (mockPaymentIntent ent amount))\<rparr>"
  let ?db1 = "db\<lparr>payments := payments db @ [(new_id, ?d)]\<rparr>"
  let ?db2 = "?db1\<lparr>payments := update_doc new_id ?f (payments ?db1)\<rparr>"
  have ex: "doc_exists new_id (payments ?db1)"
    by (simp add: doc_exists_iff)
  have "createPaymentIntent (Some uid) new_id ent db bookingId amount =
                 (Inr (mockPaymentIntent ent amount), ?db2)"
    using h ex
    by (simp add: createPaymentIntent_def getDoc_bookings_def addDoc_payments_def
        updateDoc_payments_def)
  moreover have "last (payments ?db2) = (new_id, ?f ?d)"
    by (simp add: update_doc_append) (simp add: update_doc_def)
  moreover have "length (payments ?db2) = Suc (length (payments db))"
    by (simp add: update_doc_def)
  moreover have "bookings ?db2 = bookings db" by simp
  ultimately show "\<exists>db'. createPaymentIntent (Some uid) new_id ent db bookingId amount =
                 (Inr (mockPaymentIntent ent amount), db')
             \<and> last (payments db') =
                 (new_id,
                  \<lparr>p_booking_id = bookingId, p_user_id = uid, p_host_id = b_host_id b,
                   p_amount = amount, p_currency = ''usd'', p_status = PaymentPending,
                   p_payment_intent_id = Some (pi_id (mockPaymentIntent ent amount)),
                   p_payment_method_id = None\<rparr>)
             \<and> length (payments db') = Suc (length (payments db))
             \<and> bookings db' = bookings db"
    by (intro exI [of _ ?db2]) simp
next
  show "pi_id (mockPaymentIntent ent amount) = ''pi_'' @ now_for_id ent @ ''_'' @ random_for_id ent"
    by (simp add: mockPaymentIntent_def)
next
  show "pi_client_secret (mockPaymentIntent ent amount) =
            ''pi_'' @ now_for_secret ent @ ''_secret_'' @ random_for_secret ent"
    by (simp add: mockPaymentIntent_def)
qed

lemma created_example:
  "createPaymentIntent (Some ''driver1'') ''p1'' entropy_example db_example ''b1'' 10 =
     (Inr (mockPaymentIntent entropy_example 10), db_with_payment)"
  by (simp add: createPaymentIntent_def getDoc_bookings_def addDoc_payments_def
      updateDoc_payments_def doc_exists_def update_doc_def db_example_def db_with_payment_def
      payment_example_def mockPaymentIntent_def entropy_example_def)

theorem createPaymentIntent_contract_witness:
  "map_of (bookings db_example) ''b9'' = None
   \<and> createPaymentIntent (Some ''driver1'') ''p1'' entropy_example db_example ''b9'' 10 =
       (Inl BookingNotFound, db_example)
   \<and> available db_example
   \<and> map_of (bookings db_example) ''b1'' \<noteq> None
   \<and> createPaymentIntent (Some ''driver1'') ''p1'' entropy_example db_example ''b1'' 10 =
       (Inr (mockPaymentIntent entropy_example 10), db_with_payment)
   \<and> last (payments db_with_payment) = (''p1'', payment_example)
   \<and> p_status payment_example = PaymentPending
   \<and> pi_id (mockPaymentIntent entropy_example 10) = ''pi_1700000000000_k3j9x0q2a''
   \<and> pi_client_secret (mockPaymentIntent entropy_example 10) = ''pi_1700000000001_secret_p8d1m4z7c''"
proof -
  have a: "available db_example" and n: "map_of (bookings db_example) ''b9'' = None"
    and s: "map_of (bookings db_example) ''b1'' = Some (snd (hd (bookings db_example)))"
    by (simp_all add: db_example_def)
  have l: "last (payments db_with_payment) = (''p1'', payment_example)"
    and p: "p_status payment_example = PaymentPending"
    by (simp_all add: db_with_payment_def payment_example_def)
  have e: "now_for_id entropy_example = ''1700000000000''" "random_for_id entropy_example = ''k3j9x0q2a''"
    "now_for_secret entropy_example = ''1700000000001''" "random_for_secret entropy_example = ''p8d1m4z7c''"
    by (simp_all add: entropy_example_def)
  show ?thesis
    using createPaymentIntent_contract
        [of "''p1''" entropy_example db_example "''b9''" 10 "''driver1''" "snd (hd (bookings db_example))"]
      createPaymentIntent_contract
        [of "''p1''" entropy_example db_example "''b1''" 10 "''driver1''" "snd (hd (bookings db_example))"]
    by (simp add: a n s l p e created_example)
qed

text \<open>
  Claim C4. When the payment sheet reports success (neither call of the provider's sheet
  reports an error) and payment confirmation runs for a signed-in user, with the store
  available, a payment recorded for the handle and this user, and the parent booking in
  the store: the matching payment gets status \<open>PaymentCompleted\<close> and the parent
  booking gets status \<open>Confirmed\<close> (and the id of the payment).
\<close>

theorem confirmPayment_completes_and_confirms:
  assumes "available db"
    and "filter (\<lambda>(k, p). p_payment_intent_id p = Some (pi_id intent) \<and> p_user_id p = uid)
           (payments db) = (paymentDocId, paymentData) # others"
    and "map_of (bookings db) (p_booking_id paymentData) = Some b"
  shows "\<exists>db' p. 
           handlePayment (Some uid) db (Some intent) None None = (PaymentSuccess, db')
         \<and> confirmPayment (Some uid) db (pi_id intent) ''stripe_payment_method'' =
              (Inr (paymentDocId, p), db')
         \<and> map_of (payments db') paymentDocId = Some p
         \<and> p = paymentData\<lparr>p_status := PaymentCompleted,
                              p_payment_method_id := Some ''stripe_payment_method''\<rparr>
         \<and> p_status p = PaymentCompleted
         \<and> map_of (bookings db') (p_booking_id paymentData) =
              Some (b\<lparr>b_status := Confirmed, b_payment_id := Some paymentDocId\<rparr>)"
proof -
  let ?p = "paymentData\<lparr>p_status := PaymentCompleted,
                         p_payment_method_id := Some ''stripe_payment_method''\<rparr>"
  let ?db1 = "db\<lparr>payments := update_doc paymentDocId (\<lambda>_. ?p) (payments db)\<rparr>"
  let ?db2 = "?db1\<lparr>bookings := update_doc (p_booking_id paymentData)
                 (\<lambda>b. b\<lparr>b_status := Confirmed, b_payment_id := Some paymentDocId\<rparr>) (bookings ?db1)\<rparr>"
  have "(paymentDocId, paymentData) \<in> set (filter (\<lambda>(k, p). p_payment_intent_id p = Some (pi_id intent) \<and> p_user_id p = uid)
           (payments db))"
    using assms(2) by simp
  then have mem: "(paymentDocId, paymentData) \<in> set (payments db)" by simp
  then have ex: "doc_exists paymentDocId (payments db)"
    by (force simp: doc_exists_iff)
  then obtain p0 where p0: "map_of (payments db) paymentDocId = Some p0"
    by (auto simp: doc_exists_def)
  have exb: "doc_exists (p_booking_id paymentData) (bookings db)"
    using assms(3) by (simp add: doc_exists_def)
  have u1: "updateDoc_payments db paymentDocId (\<lambda>_. ?p) = Inr ?db1"
    using assms(1) ex by (simp add: updateDoc_payments_def)
  have u2: "updateDoc_bookings ?db1 (p_booking_id paymentData)
                 (\<lambda>b. b\<lparr>b_status := Confirmed, b_payment_id := Some paymentDocId\<rparr>) = Inr ?db2"
    using assms(1) exb by (simp add: updateDoc_bookings_def)
  have c: "confirmPayment (Some uid) db (pi_id intent) ''stripe_payment_method'' =
              (Inr (paymentDocId, ?p), ?db2)"
    using assms(1,2) u1 u2 by (simp add: confirmPayment_def Let_def)
  have h: "handlePayment (Some uid) db (Some intent) None None = (PaymentSuccess, ?db2)"
    using c by (simp add: handlePayment_def)
  have m1: "map_of (payments ?db2) paymentDocId = Some ?p"
    using p0 by (simp add: map_of_update_doc)
  have m2: "map_of (bookings ?db2) (p_booking_id paymentData) =
              Some (b\<lparr>b_status := Confirmed, b_payment_id := Some paymentDocId\<rparr>)"
    using assms(3) by (simp add: map_of_update_doc)
  show ?thesis
    using c h m1 m2 by (intro exI [of _ ?db2] exI [of _ ?p]) simp
qed

lemma confirm_example_hyps:
  "available db_with_payment"
  "filter (\<lambda>(k, p). p_payment_intent_id p = Some (pi_id intent_example) \<and> p_user_id p = ''driver1'')
           (payments db_with_payment) = (''p1'', payment_example) # []"
  "map_of (bookings db_with_payment) (p_booking_id payment_example) = Some (snd (hd (bookings db_example)))"
  by (simp_all add: db_with_payment_def db_example_def payment_example_def intent_example_def
      mockPaymentIntent_def entropy_example_def)

theorem confirmPayment_completes_and_confirms_witness:
  "available db_with_payment
   \<and> map_of (payments db_with_payment) ''p1'' = Some payment_example
   \<and> (\<exists>db'. handlePayment (Some ''driver1'') db_with_payment (Some intent_example) None None =
               (PaymentSuccess, db')
         \<and> map_option p_status (map_of (payments db') ''p1'') = Some PaymentCompleted
         \<and> map_option b_status (map_of (bookings db') ''b1'') = Some Confirmed)"
proof -
  have m: "map_of (payments db_with_payment) ''p1'' = Some payment_example"
    by (simp add: db_with_payment_def)
  have b: "p_booking_id payment_example = ''b1''" by (simp add: payment_example_def)
  show ?thesis
    using confirmPayment_completes_and_confirms [OF confirm_example_hyps] confirm_example_hyps(1) m b
    by auto
qed

lemma not_integer_example: "\<not> is_integer (45 / 2)"
proof -
  have "\<lfloor>45 / 2 :: rat\<rfloor> = 22" by (rule floor_unique) simp_all
  then show ?thesis unfolding is_integer_def by simp
qed

text \<open>
  Claim C6, on the code. The booking flow hands the total price, hours times the price
  per hour, to the payment sheet, and payment initiation records it as it is: for
  1.5 hours at 15 per hour the recorded amount is 22.5, which is not an integer and is
  an amount in the unit of the price, while the handle carries the amount times 100
  (in the source: "Stripe uses cents"). The display function divides the recorded amount
  by 100 ("Convert cents to dollars") and so shows 0.225.
\<close>

theorem payment_amount_recorded_in_dollars:
  "handleBooking getOverlappingBookings ''b2'' (scr_example 15 ''12:00'' ''13:30'') db_example =
     (PaymentModalShown ''b2'' (45 / 2), db_after_booking)
   \<and> map (\<lambda>(k, p). p_amount p)
        (payments (snd (createPaymentIntent (Some ''driver2'') ''p1'' entropy_example
           db_after_booking ''b2'' (45 / 2)))) = [45 / 2]
   \<and> \<not> is_integer (45 / 2)
   \<and> map_sum id pi_amount (fst (createPaymentIntent (Some ''driver2'') ''p1'' entropy_example
           db_after_booking ''b2'' (45 / 2))) = Inr 2250
   \<and> formatAmount_dollars (45 / 2) = 9 / 40"
proof -
  have 1: "handleBooking getOverlappingBookings ''b2'' (scr_example 15 ''12:00'' ''13:30'') db_example =
     (PaymentModalShown ''b2'' (45 / 2), db_after_booking)"
    by (simp add: scr_example_def db_example_def booking_example_def booking_flow_defs
        db_after_booking_def)
  have 2: "createPaymentIntent (Some ''driver2'') ''p1'' entropy_example db_after_booking ''b2'' (45 / 2) =
     (Inr (mockPaymentIntent entropy_example (45 / 2)),
      db_after_booking\<lparr>payments :=
        [(''p1'', \<lparr>p_booking_id = ''b2'', p_user_id = ''driver2'', p_host_id = ''host1'',
                   p_amount = 45 / 2, p_currency = ''usd'', p_status = PaymentPending,
                   p_payment_intent_id = Some (pi_id (mockPaymentIntent entropy_example (45 / 2))),
                   p_payment_method_id = None\<rparr>)]\<rparr>)"
    by (simp add: createPaymentIntent_def getDoc_bookings_def addDoc_payments_def
      updateDoc_payments_def doc_exists_def update_doc_def db_example_def db_after_booking_def
      booking_example_def)
  note 3 = not_integer_example
  have 4: "pi_amount (mockPaymentIntent entropy_example (45 / 2)) = 2250"
    by (simp add: mockPaymentIntent_def)
  have 5: "formatAmount_dollars (45 / 2) = 9 / 40" by (simp add: formatAmount_dollars_def)
  show ?thesis by (simp add: 1 2 3 4 5)
qed

section \<open>Properties of license plate verification\<close>

lemmas verification_defs =
  verifyLicensePlateForBooking_def updateLicensePlateVerification_def
  manualLicensePlateVerification_def licensePlateVerification_imports_def getDoc_bookings_def
  updateDoc_verifications_def last_verification_for_def updateData_def doc_exists_def
  update_doc_def verification_error_def normalizePlate_def toUpperCase_def stripWhitespace_def
  toUpperChar_def isWhitespace_def

text \<open>
  Claim C5, on the module as it is written. The module calls \<^verbatim>\<open>getDocs\<close> in
  \<^verbatim>\<open>updateLicensePlateVerification\<close> without importing it, so the update raises,
  and \<^verbatim>\<open>verifyLicensePlateForBooking\<close> catches the error: for the booking \<open>b1\<close>
  stored with plate ABC123 and state CA, the plate "ABC 123" with state "CA" gives the
  result of the error path (no success, no confidence) and the verification record keeps
  its status.
\<close>

theorem verify_full_match_as_written:
  "verifyLicensePlateForBooking licensePlateVerification_imports ''2023-11-15T09:05:00.000Z''
     db_example ''b1'' ''ABC 123'' ''CA'' =
     (\<lparr>success = False, message = ''Error during verification process'', confidence = None,
       details = None\<rparr>, db_example)"
  by (simp add: verification_defs db_example_def Let_def)

lemma verify_no_match_as_written:
  "verifyLicensePlateForBooking licensePlateVerification_imports ''2023-11-15T09:05:00.000Z''
     db_example ''b1'' ''XYZ 789'' ''CA'' =
     (\<lparr>success = False, message = ''Error during verification process'', confidence = None,
       details = None\<rparr>, db_example)"
  by (simp add: verification_defs db_example_def Let_def)

lemma verify_partial_match_as_written:
  "verifyLicensePlateForBooking licensePlateVerification_imports ''2023-11-15T09:05:00.000Z''
     db_example ''b1'' ''abc 123'' ''ny'' =
     (\<lparr>success = False, message = ''License plate matches but state is different'',
       confidence = Some (1 / 2),
       details = Some ((Some ''ABC123'', Some ''CA''), (''ABC123'', ''NY''))\<rparr>, db_example)"
  by (simp add: verification_defs db_example_def Let_def)

text \<open>
  Claim C10, on the module as it is written. Manual verification of \<open>b1\<close> raises the
  \<^verbatim>\<open>ReferenceError\<close> of the missing import and leaves the verification record as
  it was.
\<close>

theorem manual_verification_as_written:
  "manualLicensePlateVerification licensePlateVerification_imports ''2023-11-15T09:05:00.000Z''
     db_example ''b1'' True ''host1'' (Some ''plate checked on site'') =
     (Inl (ReferenceError ''getDocs''), db_example)"
  by (simp add: verification_defs)

text \<open>
  The second half of C10 holds for the module as written and for every import list: the
  argument \<open>hostId\<close> is not used.
\<close>

lemma manual_verification_hostId_irrelevant:
  "manualLicensePlateVerification scope now db bookingId isVerified hostId notes =
   manualLicensePlateVerification scope now db bookingId isVerified hostId' notes"
  by (simp add: manualLicensePlateVerification_def)

text \<open>
  With \<^verbatim>\<open>getDocs\<close> imported, as the sibling module \<^verbatim>\<open>lib/payments\<close> does, the
  operations do what C5 and C10 say, for a booking that has a verification record.
\<close>

lemma last_verification_for_acc:
  "foldl (\<lambda>verificationId (k, d). if v_booking_id d = bookingId then Some k else verificationId)
       acc docs = Some vid \<Longrightarrow> acc = Some vid \<or> vid \<in> fst ` set docs"
proof (induction docs arbitrary: acc)
  case Nil
  then show ?case by simp
next
  case (Cons x docs)
  obtain k d where x: "x = (k, d)" by (cases x)
  from Cons.prems x have
    "foldl (\<lambda>verificationId (k, d). if v_booking_id d = bookingId then Some k else verificationId)
       (if v_booking_id d = bookingId then Some k else acc) docs = Some vid"
    by simp
  from Cons.IH [OF this] x show ?case by (auto split: if_splits)
qed

lemma last_verification_for_exists:
  "last_verification_for bookingId docs = Some vid \<Longrightarrow> doc_exists vid docs"
  using last_verification_for_acc [of bookingId None docs vid]
  by (simp add: last_verification_for_def doc_exists_iff)

lemma update_with_getDocs:
  assumes "''getDocs'' \<in> set scope" and "available db"
    and "last_verification_for bookingId (license_plate_verifications db) = Some vid"
    and "vid \<noteq> []"
  shows "updateLicensePlateVerification scope now db bookingId status verifiedBy method notes =
           (Inr (), db\<lparr>license_plate_verifications :=
              update_doc vid (updateData now status verifiedBy method notes)
                (license_plate_verifications db)\<rparr>)"
  using assms last_verification_for_exists [OF assms(3)]
  by (simp add: updateLicensePlateVerification_def updateDoc_verifications_def)

lemma updateData_fields:
  "v_verification_status (updateData now status verifiedBy method notes d) = status"
  "v_verified_by (updateData now status verifiedBy method notes d) = verifiedBy"
  "v_verification_method (updateData now status verifiedBy method notes d) = method"
  "v_verification_notes (updateData now status verifiedBy method notes d) =
     (case notes of None \<Rightarrow> v_verification_notes d
      | Some n \<Rightarrow> if n = [] then v_verification_notes d else Some n)"
  by (simp_all add: updateData_def Let_def split: option.splits)

lemma manual_verification_with_getDocs:
  assumes "''getDocs'' \<in> set scope" and "available db"
    and "last_verification_for bookingId (license_plate_verifications db) = Some vid"
    and "vid \<noteq> []"
    and "map_of (license_plate_verifications db) vid = Some d"
  shows "\<exists>db' d'. manualLicensePlateVerification scope now db bookingId isVerified hostId notes =
                     (Inr (), db')
           \<and> map_of (license_plate_verifications db') vid = Some d'
           \<and> v_verification_status d' = (if isVerified then Verified else VerificationFailed)
           \<and> v_verified_by d' = Host
           \<and> v_verification_method d' = Manual
           \<and> v_verification_notes d' =
               (case notes of None \<Rightarrow> v_verification_notes d
                | Some n \<Rightarrow> if n = [] then v_verification_notes d else Some n)"
  using update_with_getDocs [OF assms(1-4)] assms(5)
  by (simp add: manualLicensePlateVerification_def map_of_update_doc updateData_fields)

lemma verify_outcomes_with_getDocs:
  assumes "''getDocs'' \<in> set scope" and "available db"
    and "map_of (bookings db) bookingId = Some b"
    and "last_verification_for bookingId (license_plate_verifications db) = Some vid"
    and "vid \<noteq> []"
    and "map_of (license_plate_verifications db) vid = Some d"
  shows "\<exists>r db'. verifyLicensePlateForBooking scope now db bookingId plate state = (r, db') \<and>
    (if map_option normalizePlate (b_license_plate b) = Some (normalizePlate plate)
     then (if map_option toUpperCase (b_license_plate_state b) = Some (toUpperCase state)
           then success r \<and> confidence r = Some 1
                \<and> map_option v_verification_status (map_of (license_plate_verifications db') vid)
                    = Some Verified
           else \<not> success r \<and> confidence r = Some (1 / 2) \<and> db' = db)
     else \<not> success r \<and> confidence r = Some 0
          \<and> map_option v_verification_status (map_of (license_plate_verifications db') vid)
              = Some VerificationFailed)"
  using update_with_getDocs [OF assms(1,2,4,5)] assms(2,3,6)
  by (simp add: verifyLicensePlateForBooking_def getDoc_bookings_def Let_def map_of_update_doc
      updateData_fields)

lemma verify_scenario_with_getDocs:
  "fst (verifyLicensePlateForBooking (''getDocs'' # licensePlateVerification_imports)
     ''2023-11-15T09:05:00.000Z'' db_example ''b1'' ''ABC 123'' ''CA'') =
     \<lparr>success = True, message = ''License plate matches booking'', confidence = Some 1,
      details = Some ((Some ''ABC123'', Some ''CA''), (''ABC123'', ''CA''))\<rparr>"
  by (simp add: verification_defs db_example_def Let_def)

section \<open>Properties of the license plate operations\<close>

lemmas plate_defs =
  addLicensePlate_def removeLicensePlate_def setDefaultPlate_def promote_first_def
  validatePlateNumber_def plate_char_def toUpperCase_def stripWhitespace_def toUpperChar_def
  isWhitespace_def default_count_def one_default_def

text \<open>
  Claim C7, on the code. The user has the plates A (default) and B. Removing A while the
  write to the store fails leaves the stored list as it was, but the promotion of B,
  assigned before the write, stays in the component state, which now holds A and B both
  as default. The next operation that succeeds writes that state: after adding a third
  plate the stored list has two default plates.
\<close>

theorem failed_remove_then_add_two_defaults:
  "one_default (stored_plates plates_example)
   \<and> removeLicensePlate (Some ''driver1'') True False ''1700000000001'' plates_example =
       (Some (PlateAlert ''Error'' ''Failed to remove license plate''),
        \<lparr>stored_plates = [plate_A, plate_B],
         local_plates = [plate_A, plate_B\<lparr>isDefault := True\<rparr>]\<rparr>)
   \<and> stored_plates (snd (addLicensePlate (Some ''driver1'') True ''1700000000003''
        ''2023-11-14T22:13:20.003Z'' ''ghi 789'' ''NY''
        (snd (removeLicensePlate (Some ''driver1'') True False ''1700000000001'' plates_example)))) =
       [plate_A, plate_B\<lparr>isDefault := True\<rparr>,
        \<lparr>lp_id = ''1700000000003'', plateNumber = ''GHI789'', lp_state = ''NY'',
         isDefault = False, createdAt = ''2023-11-14T22:13:20.003Z''\<rparr>]
   \<and> default_count (stored_plates (snd (addLicensePlate (Some ''driver1'') True ''1700000000003''
        ''2023-11-14T22:13:20.003Z'' ''ghi 789'' ''NY''
        (snd (removeLicensePlate (Some ''driver1'') True False ''1700000000001'' plates_example))))) = 2"
proof -
  have r: "removeLicensePlate (Some ''driver1'') True False ''1700000000001'' plates_example =
       (Some (PlateAlert ''Error'' ''Failed to remove license plate''),
        \<lparr>stored_plates = [plate_A, plate_B],
         local_plates = [plate_A, plate_B\<lparr>isDefault := True\<rparr>]\<rparr>)"
    by (simp add: plate_defs plates_example_def plate_A_def plate_B_def Let_def)
  have a: "addLicensePlate (Some ''driver1'') True ''1700000000003''
        ''2023-11-14T22:13:20.003Z'' ''ghi 789'' ''NY''
        \<lparr>stored_plates = [plate_A, plate_B],
         local_plates = [plate_A, plate_B\<lparr>isDefault := True\<rparr>]\<rparr> =
       (Some (PlateAlert ''Success'' ''License plate added successfully''),
        \<lparr>stored_plates = [plate_A, plate_B\<lparr>isDefault := True\<rparr>,
          \<lparr>lp_id = ''1700000000003'', plateNumber = ''GHI789'', lp_state = ''NY'',
           isDefault = False, createdAt = ''2023-11-14T22:13:20.003Z''\<rparr>],
         local_plates = [plate_A, plate_B\<lparr>isDefault := True\<rparr>,
          \<lparr>lp_id = ''1700000000003'', plateNumber = ''GHI789'', lp_state = ''NY'',
           isDefault = False, createdAt = ''2023-11-14T22:13:20.003Z''\<rparr>]\<rparr>)"
    by (simp add: plate_defs plate_A_def plate_B_def Let_def)
  have o: "one_default (stored_plates plates_example)"
    by (simp add: plate_defs plates_example_def plate_A_def plate_B_def)
  have c: "default_count [plate_A, plate_B\<lparr>isDefault := True\<rparr>,
          \<lparr>lp_id = ''1700000000003'', plateNumber = ''GHI789'', lp_state = ''NY'',
           isDefault = False, createdAt = ''2023-11-14T22:13:20.003Z''\<rparr>] = 2"
    by (simp add: plate_defs plate_A_def plate_B_def)
  show ?thesis by (simp add: r a o c)
qed

text \<open>When the write succeeds, removing the default plate A promotes B.\<close>

lemma successful_remove_promotes_one:
  "removeLicensePlate (Some ''driver1'') True True ''1700000000001'' plates_example =
       (Some (PlateAlert ''Success'' ''License plate removed successfully''),
        \<lparr>stored_plates = [plate_B\<lparr>isDefault := True\<rparr>],
         local_plates = [plate_B\<lparr>isDefault := True\<rparr>]\<rparr>)"
  by (simp add: plate_defs plates_example_def plate_A_def plate_B_def Let_def)

text \<open>
  From a state in which the component state is the stored list, with distinct ids and
  one default plate, every single operation writes a list with distinct ids and one
  default plate: adding with a fresh id, removing, and setting as default a plate that is
  in the list (the only ids the screen passes).
\<close>

lemma filter_promote_first_remaining:
  "filter (\<lambda>p. lp_id p \<noteq> k) (promote_first_remaining k ps) =
   promote_first (filter (\<lambda>p. lp_id p \<noteq> k) ps)"
  by (induction ps) (auto simp: promote_first_def)

lemma filter_absent_id: "k \<notin> lp_id ` set ps \<Longrightarrow> filter (\<lambda>q. lp_id q = k) ps = []"
  by (induction ps) auto

lemma find_distinct_filter:
  "distinct (map lp_id ps) \<Longrightarrow> find (\<lambda>p. lp_id p = k) ps = Some r \<Longrightarrow>
   filter (\<lambda>p. lp_id p = k) ps = [r]"
proof (induction ps)
  case Nil
  then show ?case by simp
next
  case (Cons p ps)
  show ?case
  proof (cases "lp_id p = k")
    case True
    with Cons.prems have "r = p" by simp
    moreover from True Cons.prems have "filter (\<lambda>q. lp_id q = k) ps = []"
      by (intro filter_absent_id) simp
    ultimately show ?thesis using True by simp
  next
    case False
    with Cons show ?thesis by simp
  qed
qed

lemma find_None_filter:
  "find (\<lambda>p. lp_id p = k) ps = None \<Longrightarrow> filter (\<lambda>p. lp_id p \<noteq> k) ps = ps"
  by (induction ps) (auto split: if_splits)

lemma default_count_split:
  "default_count ps =
     default_count (filter (\<lambda>p. lp_id p \<noteq> k) ps) + default_count (filter (\<lambda>p. lp_id p = k) ps)"
  by (induction ps) (auto simp: default_count_def)

lemma default_count_promote_first:
  "ps \<noteq> [] \<Longrightarrow> default_count ps = 0 \<Longrightarrow> default_count (promote_first ps) = 1"
  by (cases ps) (auto simp: default_count_def promote_first_def split: if_splits)

lemma distinct_filter_ids: "distinct (map lp_id ps) \<Longrightarrow> distinct (map lp_id (filter P ps))"
  by (simp add: distinct_map_filter)

lemma ids_promote_first: "map lp_id (promote_first ps) = map lp_id ps"
  by (cases ps) (simp_all add: promote_first_def)

lemma remove_keeps_plates_ok:
  assumes "plates_ok ps"
  shows "plates_ok (stored_plates (snd (removeLicensePlate uid confirmed True plateId
            \<lparr>stored_plates = ps, local_plates = ps\<rparr>)))"
proof (cases "uid = None \<or> \<not> confirmed")
  case True
  with assms show ?thesis by (auto simp: removeLicensePlate_def split: option.splits)
next
  case False
  then obtain u where u: "uid = Some u" and c: confirmed by auto
  let ?upd = "filter (\<lambda>p. lp_id p \<noteq> plateId) ps"
  from assms have d: "distinct (map lp_id ps)" and o: "one_default ps"
    by (simp_all add: plates_ok_def)
  have du: "distinct (map lp_id ?upd)" using d by (rule distinct_filter_ids)
  show ?thesis
  proof (cases "find (\<lambda>p. lp_id p = plateId) ps")
    case None
    then have "?upd = ps" by (rule find_None_filter)
    with None u c assms show ?thesis
      by (simp add: removeLicensePlate_def Let_def)
  next
    case (Some r)
    have fr: "filter (\<lambda>p. lp_id p = plateId) ps = [r]"
      using d Some by (rule find_distinct_filter)
    then have "r \<in> set (filter (\<lambda>p. lp_id p = plateId) ps)" by simp
    then have "r \<in> set ps" by simp
    then have ne: "ps \<noteq> []" by auto
    with o have one: "default_count ps = 1" by (simp add: one_default_def)
    have "default_count (filter (\<lambda>p. lp_id p = plateId) ps) = (if isDefault r then 1 else 0)"
      by (simp add: fr default_count_def)
    then have cnt: "default_count ?upd + (if isDefault r then 1 else 0) = 1"
      using default_count_split [of ps plateId] one by simp
    show ?thesis
    proof (cases "isDefault r \<and> ?upd \<noteq> []")
      case True
      with cnt have "default_count ?upd = 0" by simp
      with True have "default_count (promote_first ?upd) = 1"
        by (simp add: default_count_promote_first)
      moreover have "distinct (map lp_id (promote_first ?upd))"
        using du by (simp add: ids_promote_first)
      ultimately show ?thesis
        using True Some u c
        by (simp add: removeLicensePlate_def Let_def plates_ok_def one_default_def)
    next
      case False
      then have "one_default ?upd"
        using cnt by (auto simp: one_default_def split: if_splits)
      with False du Some u c show ?thesis
        by (auto simp: removeLicensePlate_def Let_def plates_ok_def)
    qed
  qed
qed

lemma add_keeps_plates_ok:
  assumes "plates_ok ps" and "now_ms \<notin> set (map lp_id ps)"
  shows "plates_ok (stored_plates (snd (addLicensePlate uid remote_ok now_ms now_iso plate state
            \<lparr>stored_plates = ps, local_plates = ps\<rparr>)))"
  using assms
  by (auto simp: addLicensePlate_def Let_def plates_ok_def one_default_def default_count_def
      split: option.splits)

lemma default_count_setDefault:
  "default_count (map (\<lambda>plate. plate\<lparr>isDefault := (lp_id plate = k)\<rparr>) ps) =
     length (filter (\<lambda>p. lp_id p = k) ps)"
  by (induction ps) (simp_all add: default_count_def)

lemma distinct_count_one:
  "distinct (map lp_id ps) \<Longrightarrow> k \<in> set (map lp_id ps) \<Longrightarrow> length (filter (\<lambda>p. lp_id p = k) ps) = 1"
proof (induction ps)
  case Nil
  then show ?case by simp
next
  case (Cons p ps)
  show ?case
  proof (cases "lp_id p = k")
    case True
    with Cons.prems have "filter (\<lambda>q. lp_id q = k) ps = []"
      by (intro filter_absent_id) simp
    with True show ?thesis by simp
  next
    case False
    with Cons show ?thesis by simp
  qed
qed

lemma setDefault_keeps_plates_ok:
  assumes "plates_ok ps" and "plateId \<in> set (map lp_id ps)"
  shows "plates_ok (stored_plates (snd (setDefaultPlate uid remote_ok plateId
            \<lparr>stored_plates = ps, local_plates = ps\<rparr>)))"
proof -
  from assms have d: "distinct (map lp_id ps)" by (simp add: plates_ok_def)
  have "default_count (map (\<lambda>plate. plate\<lparr>isDefault := (lp_id plate = plateId)\<rparr>) ps) = 1"
    using distinct_count_one [OF d assms(2)] by (simp add: default_count_setDefault)
  moreover have "map lp_id (map (\<lambda>plate. plate\<lparr>isDefault := (lp_id plate = plateId)\<rparr>) ps) = map lp_id ps"
    by (simp add: comp_def)
  ultimately show ?thesis
    using assms(1) d
    by (auto simp: setDefaultPlate_def Let_def plates_ok_def one_default_def comp_def
        split: option.splits)
qed

lemma remove_default_promotes_exactly_one:
  assumes "plates_ok ps" and "find (\<lambda>p. lp_id p = plateId) ps = Some r" and "isDefault r"
    and "filter (\<lambda>p. lp_id p \<noteq> plateId) ps \<noteq> []"
  shows "default_count (stored_plates (snd (removeLicensePlate (Some u) True True plateId
            \<lparr>stored_plates = ps, local_plates = ps\<rparr>))) = 1"
proof -
  have "stored_plates (snd (removeLicensePlate (Some u) True True plateId
            \<lparr>stored_plates = ps, local_plates = ps\<rparr>)) \<noteq> []"
    using assms(2-4) by (cases "filter (\<lambda>p. lp_id p \<noteq> plateId) ps")
      (simp_all add: removeLicensePlate_def Let_def promote_first_def)
  with remove_keeps_plates_ok [OF assms(1), of "Some u" True plateId]
  show ?thesis by (simp add: plates_ok_def one_default_def)
qed

end
